theory Spec2Isabelle
  imports Complex_Main
begin

section \<open>Event synchronisation of \<open>src/agent/sync.ts\<close>\<close>

text \<open>
  The module folds a stream of events into local tables (people, rooms, routes, relays, the
  current user's profile).  The embedding passes the tables explicitly as a state record.
  Timestamps are integers (unix seconds), route scores are real numbers (the source computes
  them in IEEE double arithmetic; the model uses exact arithmetic), and a JavaScript
  \<open>undefined\<close> field is \<open>None\<close>.
\<close>

subsection \<open>JSON values\<close>

datatype json =
    JNull
  | JBool bool
  | JNum real
  | JStr string
  | JArr "json list"
  | JObj "(string \<times> json) list"

text \<open>JavaScript truthiness of a parsed JSON value.\<close>

fun truthy :: "json \<Rightarrow> bool" where
  "truthy JNull = False"
| "truthy (JBool b) = b"
| "truthy (JNum n) = (n \<noteq> 0)"
| "truthy (JStr s) = (s \<noteq> [])"
| "truthy (JArr xs) = True"
| "truthy (JObj kvs) = True"

text \<open>
  Truthiness of a possibly undefined value, and the property read \<open>v?.name\<close> for the
  names the module uses: only an object has such a property.
\<close>

definition truthy_opt :: "json option \<Rightarrow> bool" where
  "truthy_opt v = (case v of None \<Rightarrow> False | Some j \<Rightarrow> truthy j)"

fun get_prop :: "string \<Rightarrow> json \<Rightarrow> json option" where
  "get_prop k (JObj kvs) = map_of kvs k"
| "get_prop k _ = None"


subsection \<open>Tables\<close>

record relay_row =
  relay_url :: string
  relay_meta :: "(string \<times> json) list"

record route =
  route_id :: string
  route_pubkey :: string
  route_url :: string
  route_mode :: string
  score :: real
  count :: nat
  types :: "string list"
  last_seen :: "int option"

text \<open>
  The helpers of \<open>src/util/nostr\<close> and \<open>src/util/misc\<close> are not part of the sources at
  hand; the functions below take them as parameters.  A relay url read out of a tag may be
  undefined, hence the \<open>option\<close>.
\<close>

text \<open>An entry of the current user's relay list: \<open>{url, read, write}\<close>.\<close>

record relay_entry =
  entry_url :: "string option"
  entry_read :: "bool option"
  entry_write :: "bool option"

record env =
  isShareableRelay :: "string option \<Rightarrow> bool"
  normalizeRelayUrl :: "string option \<Rightarrow> string"
  hash :: "string \<Rightarrow> string"
  isRelay :: "string \<Rightarrow> bool"
  uniqByUrl :: "relay_entry list \<Rightarrow> relay_entry list"
  roomAttrs :: "string list"
  parseJson :: "string \<Rightarrow> json option"
  toLowerCase :: "string \<Rightarrow> string"
  bech32ToHex :: "string \<Rightarrow> string option"
  hexToBech32 :: "string \<Rightarrow> string \<Rightarrow> string"

text \<open>
  \<open>parseJson\<close> is \<open>JSON.parse\<close> (\<open>None\<close> when it throws a SyntaxError), \<open>toLowerCase\<close>
  the string method, \<open>bech32ToHex\<close> is \<open>None\<close> when the decoder throws, \<open>hexToBech32\<close>
  (prefix, url) always returns, and \<open>roomAttrs\<close> is the list of room attribute names, none
  of which is \<open>id\<close>, \<open>pubkey\<close> or \<open>updated_at\<close>.
\<close>

record event =
  ev_id :: string
  ev_pubkey :: string
  ev_kind :: int
  ev_created_at :: int
  ev_content :: string
  ev_tags :: "string list list option"

text \<open>
  The fields that \<open>updatePerson\<close> patches, on a person as well as on the user's profile.
  A \<open>pdata\<close> value also serves as the patch itself, \<open>None\<close> being a key that the patch
  does not have.  The \<open>kind0\<close> object is a finite map: the order of its keys is not modelled.
\<close>

record pdata =
  kind0 :: "(string \<rightharpoonup> json) option"
  kind0_updated_at :: "int option"
  petnames :: "string list list option"
  petnames_updated_at :: "int option"
  verified_as :: "json option"
  lnurl :: "string option"
  zapper :: "(string \<times> json) list option"

record person =
  person_pubkey :: string
  updated_at :: "int option"
  person_data :: pdata

text \<open>
  The profile handlers address the profile's fields by a computed key (\<open>relays\<close> or
  \<open>mutes\<close>, and the key with \<open>_updated_at\<close> appended).
\<close>

datatype pkey = Relays | Mutes

datatype pvalue = RelayList "relay_entry list" | TagList "string list list"

record profile =
  profile_pubkey :: "string option"
  profile_data :: pdata
  field :: "pkey \<Rightarrow> pvalue option"
  field_updated_at :: "pkey \<Rightarrow> int option"

record room =
  room_id :: string
  room_pubkey :: string
  room_updated_at :: "int option"
  room_attrs :: "string \<rightharpoonup> json"

text \<open>The calls of the two verification lookups that a handler has launched.\<close>

datatype lookup = VerifyNip05 string json | VerifyZapper string string

record routing =
  relays :: "string \<rightharpoonup> relay_row"
  routes :: "string \<rightharpoonup> route"

record state = routing +
  people :: "string \<rightharpoonup> person"
  rooms :: "string \<rightharpoonup> room"
  userEvents :: "string \<rightharpoonup> event"
  profile :: profile
  lookups :: "lookup list"

datatype js_error = TypeError

subsection \<open>Routes\<close>

fun getWeight :: "string \<Rightarrow> real option" where
  "getWeight t =
     (if t = ''nip05'' then Some 1
      else if t = ''kind:10002'' then Some 1
      else if t = ''kind:3'' then Some (8 / 10)
      else if t = ''kind:2'' then Some (5 / 10)
      else None)"

text \<open>Modelled from the spec: \<open>timedelta(30, "days")\<close> is thirty days in seconds.\<close>

definition timedelta_30_days :: int where
  "timedelta_30_days = 30 * 24 * 60 * 60"

text \<open>
  The evidence score of one observation.  An undefined weight makes the product
  \<open>NaN\<close>, for which every comparison is false: \<open>None\<close>.
\<close>

definition evidence_score :: "int \<Rightarrow> string \<Rightarrow> int \<Rightarrow> real option" where
  "evidence_score now t created_at =
     (case getWeight t of
        None \<Rightarrow> None
      | Some w \<Rightarrow> Some (w * (1 - real_of_int (now - created_at) / real_of_int timedelta_30_days)))"

definition score_positive :: "real option \<Rightarrow> bool" where
  "score_positive s = (case s of None \<Rightarrow> False | Some x \<Rightarrow> x > 0)"

text \<open>\<open>uniq\<close> of ramda keeps the first occurrence of every element.\<close>

definition uniq :: "'a list \<Rightarrow> 'a list" where
  "uniq xs = rev (remdups (rev xs))"

definition route_key :: "env \<Rightarrow> string \<Rightarrow> string option \<Rightarrow> string \<Rightarrow> string" where
  "route_key E pubkey rawUrl mode = hash E (pubkey @ normalizeRelayUrl E rawUrl @ mode)"

definition route_defaults :: "string \<Rightarrow> string \<Rightarrow> string \<Rightarrow> string \<Rightarrow> route" where
  "route_defaults rid pubkey url mode =
     \<lparr>route_id = rid, route_pubkey = pubkey, route_url = url, route_mode = mode,
      score = 0, count = 0, types = [], last_seen = None\<rparr>"

text \<open>\<open>route.last_seen || 0\<close>\<close>

definition last_seen_or_0 :: "int option \<Rightarrow> int" where
  "last_seen_or_0 l = (case l of None \<Rightarrow> 0 | Some x \<Rightarrow> x)"

text \<open>\<open>relays.patch({url})\<close>: the row of that url is created when absent.\<close>

definition relays_patch_url :: "string \<Rightarrow> (string \<rightharpoonup> relay_row) \<Rightarrow> (string \<rightharpoonup> relay_row)" where
  "relays_patch_url url tbl =
     (case tbl url of
        None \<Rightarrow> tbl(url \<mapsto> \<lparr>relay_url = url, relay_meta = []\<rparr>)
      | Some r \<Rightarrow> tbl(url \<mapsto> r\<lparr>relay_url := url\<rparr>))"

definition addRoute ::
  "env \<Rightarrow> int \<Rightarrow> string \<Rightarrow> string option \<Rightarrow> string \<Rightarrow> string \<Rightarrow> int \<Rightarrow> 'a routing_scheme \<Rightarrow> 'a routing_scheme" where
  "addRoute E now pubkey rawUrl t mode created_at st =
     (if \<not> isShareableRelay E rawUrl then st
      else
        let url = normalizeRelayUrl E rawUrl;
            rid = hash E (pubkey @ url @ mode);
            sc = evidence_score now t created_at;
            r = (case routes st rid of None \<Rightarrow> route_defaults rid pubkey url mode | Some r \<Rightarrow> r)
        in
          if score_positive sc then
            st\<lparr>relays := relays_patch_url (route_url r) (relays st),
               routes := (routes st)(rid \<mapsto>
                  r\<lparr>count := count r + 1,
                    score := (score r * real (count r) + the sc) / real (count r + 1),
                    types := uniq (types r @ [t]),
                    last_seen := Some (max created_at (last_seen_or_0 (last_seen r)))\<rparr>)\<rparr>
          else st)"

text \<open>A sequence of \<open>addRoute\<close> calls, each with the clock reading at the time of the call.\<close>

record route_call =
  call_now :: int
  call_pubkey :: string
  call_url :: "string option"
  call_type :: string
  call_mode :: string
  call_created_at :: int

definition addRoute_call :: "env \<Rightarrow> route_call \<Rightarrow> 'a routing_scheme \<Rightarrow> 'a routing_scheme" where
  "addRoute_call E c st =
     addRoute E (call_now c) (call_pubkey c) (call_url c) (call_type c) (call_mode c)
       (call_created_at c) st"

fun addRoutes :: "env \<Rightarrow> route_call list \<Rightarrow> 'a routing_scheme \<Rightarrow> 'a routing_scheme" where
  "addRoutes E [] st = st"
| "addRoutes E (c # cs) st = addRoutes E cs (addRoute_call E c st)"







subsection \<open>Helpers on JSON values and tags\<close>

text \<open>The decimal rendering of an array index, as a property name.\<close>

fun digits :: "nat \<Rightarrow> string" where
  "digits n =
     (if n < 10 then [char_of (48 + n)] else digits (n div 10) @ [char_of (48 + n mod 10)])"

definition indexed :: "json list \<Rightarrow> (string \<times> json) list" where
  "indexed xs = zip (map digits [0 ..< length xs]) xs"

text \<open>
  The own enumerable properties that an object spread \<open>{...v}\<close> copies.  The keys of a parsed
  object are pairwise distinct, and are read in the order of the list.
\<close>

fun spread :: "json \<Rightarrow> (string \<times> json) list" where
  "spread (JObj kvs) = kvs"
| "spread (JArr xs) = indexed xs"
| "spread (JStr s) = indexed (map (\<lambda>c. JStr [c]) s)"
| "spread _ = []"

text \<open>\<open>Object.entries(v)\<close> throws a TypeError on \<open>null\<close>.\<close>

fun entries :: "json \<Rightarrow> (string \<times> json) list option" where
  "entries JNull = None"
| "entries v = Some (spread v)"

text \<open>
  \<open>pick(names, v)\<close> of ramda tests \<open>name in v\<close>, which throws a TypeError on a primitive
  value.  No attribute name is an array index or \<open>length\<close>, so an array has none of them.
\<close>

fun pick :: "string list \<Rightarrow> json \<Rightarrow> (string \<times> json) list option" where
  "pick names (JObj kvs) =
     Some (List.map_filter (\<lambda>n. map_option (Pair n) (map_of kvs n)) names)"
| "pick names (JArr xs) = Some []"
| "pick names _ = None"

definition tag_nth :: "string list \<Rightarrow> nat \<Rightarrow> string option" where
  "tag_nth t i = (if i < length t then Some (t ! i) else None)"

text \<open>\<open>[false, "!"].includes(v)\<close>\<close>

definition negated :: "json option \<Rightarrow> bool" where
  "negated v = (case v of Some (JBool b) \<Rightarrow> \<not> b | Some (JStr s) \<Rightarrow> s = ''!'' | _ \<Rightarrow> False)"

subsection \<open>People\<close>

text \<open>
  The guard \<open>e.created_at < x?.key_updated_at\<close>: a comparison with \<open>undefined\<close> is false.
\<close>

definition stale :: "int \<Rightarrow> int option \<Rightarrow> bool" where
  "stale created_at stored = (case stored of None \<Rightarrow> False | Some t \<Rightarrow> created_at < t)"

definition empty_pdata :: pdata where
  "empty_pdata =
     \<lparr>kind0 = None, kind0_updated_at = None, petnames = None, petnames_updated_at = None,
      verified_as = None, lnurl = None, zapper = None\<rparr>"

definition patched :: "'a option \<Rightarrow> 'a option \<Rightarrow> 'a option" where
  "patched old new = (case new of None \<Rightarrow> old | Some v \<Rightarrow> Some v)"

text \<open>\<open>{...old, ...data}\<close> on the fields of \<open>pdata\<close>\<close>

definition patch_pdata :: "pdata \<Rightarrow> pdata \<Rightarrow> pdata" where
  "patch_pdata old d =
     \<lparr>kind0 = patched (kind0 old) (kind0 d),
      kind0_updated_at = patched (kind0_updated_at old) (kind0_updated_at d),
      petnames = patched (petnames old) (petnames d),
      petnames_updated_at = patched (petnames_updated_at old) (petnames_updated_at d),
      verified_as = patched (verified_as old) (verified_as d),
      lnurl = patched (lnurl old) (lnurl d),
      zapper = patched (zapper old) (zapper d)\<rparr>"

text \<open>
  Modelled from the spec: the tables of \<open>src/agent/tables\<close> are key-value tables with
  get-by-key, insert-or-replace (\<open>put\<close>) and a partial-field \<open>patch\<close> that creates the row
  when it is absent.
\<close>

definition people_patch :: "int \<Rightarrow> string \<Rightarrow> pdata \<Rightarrow> (string \<rightharpoonup> person) \<Rightarrow> (string \<rightharpoonup> person)" where
  "people_patch now pubkey d tbl =
     tbl(pubkey \<mapsto>
       (case tbl pubkey of
          None \<Rightarrow> \<lparr>person_pubkey = pubkey, updated_at = Some now,
                    person_data = patch_pdata empty_pdata d\<rparr>
        | Some p \<Rightarrow> p\<lparr>person_pubkey := pubkey, updated_at := Some now,
                      person_data := patch_pdata (person_data p) d\<rparr>))"

text \<open>Modelled from the spec: \<open>user.getPubkey()\<close> is the pubkey of the user's profile.\<close>

definition getPubkey :: "state \<Rightarrow> string option" where
  "getPubkey st = profile_pubkey (profile st)"

definition updatePerson :: "int \<Rightarrow> string \<Rightarrow> pdata \<Rightarrow> state \<Rightarrow> state" where
  "updatePerson now pubkey d st =
     (let st1 = st\<lparr>people := people_patch now pubkey d (people st)\<rparr>
      in if Some pubkey = getPubkey st1
         then st1\<lparr>profile := (profile st1)\<lparr>profile_data := patch_pdata (profile_data (profile st1)) d\<rparr>\<rparr>
         else st1)"

definition person_field :: "(pdata \<Rightarrow> 'a option) \<Rightarrow> person option \<Rightarrow> 'a option" where
  "person_field f person = (case person of None \<Rightarrow> None | Some p \<Rightarrow> f (person_data p))"




text \<open>
  The handler of kind 0.  Everything runs inside \<open>tryJson\<close>, which swallows the SyntaxError of
  \<open>JSON.parse\<close>, the TypeError of reading \<open>kind0.nip05\<close> when the content parses to
  \<open>null\<close>, and the TypeError of \<open>address.toLowerCase()\<close> when the address is not a string;
  what the handler did before the throw stays done.  The two lookups are launched and not
  awaited: the handler records the calls.
\<close>

definition kind0_merge :: "(string \<rightharpoonup> json) option \<Rightarrow> json \<Rightarrow> (string \<rightharpoonup> json)" where
  "kind0_merge old k = (case old of None \<Rightarrow> Map.empty | Some m \<Rightarrow> m) ++ map_of (spread k)"

text \<open>\<open>kind0.lud16 || kind0.lud06\<close>\<close>

definition kind0_address :: "json \<Rightarrow> json option" where
  "kind0_address k =
     (if truthy_opt (get_prop ''lud16'' k) then get_prop ''lud16'' k else get_prop ''lud06'' k)"

definition launch :: "lookup \<Rightarrow> state \<Rightarrow> state" where
  "launch l st = st\<lparr>lookups := lookups st @ [l]\<rparr>"

definition handle_kind0 :: "env \<Rightarrow> int \<Rightarrow> event \<Rightarrow> state \<Rightarrow> state" where
  "handle_kind0 E now e st =
     (case parseJson E (ev_content e) of
        None \<Rightarrow> st
      | Some k \<Rightarrow>
          let person = people st (ev_pubkey e) in
          if stale (ev_created_at e) (person_field kind0_updated_at person) then st
          else (case k of
             JNull \<Rightarrow> st
           | _ \<Rightarrow>
              let st1 = (case get_prop ''nip05'' k of
                           None \<Rightarrow> st
                         | Some n \<Rightarrow> if truthy n then launch (VerifyNip05 (ev_pubkey e) n) st else st);
                  address = kind0_address k;
                  d = empty_pdata\<lparr>kind0 := Some (kind0_merge (person_field kind0 person) k),
                                   kind0_updated_at := Some (ev_created_at e)\<rparr>
              in (case address of
                    None \<Rightarrow> updatePerson now (ev_pubkey e) d st1
                  | Some a \<Rightarrow>
                      if \<not> truthy a then updatePerson now (ev_pubkey e) d st1
                      else (case a of
                              JStr s \<Rightarrow>
                                updatePerson now (ev_pubkey e) d
                                  (launch (VerifyZapper (ev_pubkey e) (toLowerCase E s)) st1)
                            | _ \<Rightarrow> st1))))"

text \<open>The first handler of kind 3: petnames.  \<open>e.tags.filter\<close> throws when the event has no tags.\<close>

definition handle_petnames :: "int \<Rightarrow> event \<Rightarrow> state \<Rightarrow> js_error + state" where
  "handle_petnames now e st =
     (if stale (ev_created_at e) (person_field petnames_updated_at (people st (ev_pubkey e)))
      then Inr st
      else (case ev_tags e of
              None \<Rightarrow> Inl TypeError
            | Some ts \<Rightarrow>
                Inr (updatePerson now (ev_pubkey e)
                      (empty_pdata\<lparr>petnames_updated_at := Some (ev_created_at e),
                                   petnames := Some (filter (\<lambda>t. tag_nth t 0 = Some ''p'') ts)\<rparr>)
                      st)))"

subsection \<open>The user's profile\<close>

text \<open>
  \<open>getValue\<close> returns \<open>Inl\<close> when it throws, \<open>Inr None\<close> for a falsy value (\<open>undefined\<close>) and
  \<open>Inr (Some v)\<close> for a value; every value is an array, which is truthy even when empty.
\<close>

definition profileHandler ::
  "pkey \<Rightarrow> (event \<Rightarrow> profile \<Rightarrow> js_error + pvalue option) \<Rightarrow> event \<Rightarrow> state \<Rightarrow> js_error + state" where
  "profileHandler key getValue e st =
     (let p = profile st in
      if Some (ev_pubkey e) \<noteq> profile_pubkey p then Inr st
      else if stale (ev_created_at e) (field_updated_at p key) then Inr st
      else (case getValue e p of
              Inl err \<Rightarrow> Inl err
            | Inr None \<Rightarrow> Inr st
            | Inr (Some v) \<Rightarrow>
                Inr (st\<lparr>profile := p\<lparr>field := (field p)(key := Some v),
                                       field_updated_at := (field_updated_at p)(key := Some (ev_created_at e))\<rparr>\<rparr>)))"

text \<open>
  Modelled from the spec: the \<open>Tags\<close> helper of \<open>src/util/nostr\<close> selects the tags whose
  first element is the given type; reading the tags of an event that has none throws.
\<close>

definition tags_type :: "string \<Rightarrow> event \<Rightarrow> js_error + string list list" where
  "tags_type ty e =
     (case ev_tags e of
        None \<Rightarrow> Inl TypeError
      | Some ts \<Rightarrow> Inr (filter (\<lambda>t. tag_nth t 0 = Some ty) ts))"

text \<open>
  Kind 2: \<open>p.relays.concat\<close> throws when the profile has no relay list.  The key \<open>relays\<close>
  only ever receives relay lists, so it never holds a tag list.
\<close>

definition getValue_kind2 :: "env \<Rightarrow> event \<Rightarrow> profile \<Rightarrow> js_error + pvalue option" where
  "getValue_kind2 E e p =
     (case field p Relays of
        Some (RelayList rs) \<Rightarrow>
          Inr (Some (RelayList (uniqByUrl E
            (rs @ [\<lparr>entry_url = Some (ev_content e), entry_read = None, entry_write = None\<rparr>]))))
      | _ \<Rightarrow> Inl TypeError)"

text \<open>
  Kind 3: the content as an object from url to conditions.  Destructuring
  \<open>{write, read} = conditions\<close> throws on \<open>null\<close>; \<open>tryJson\<close> turns every throw into
  \<open>undefined\<close>.
\<close>

definition relay_of_conditions :: "env \<Rightarrow> string \<times> json \<Rightarrow> relay_entry option" where
  "relay_of_conditions E uc =
     (case snd uc of
        JNull \<Rightarrow> None
      | c \<Rightarrow> Some \<lparr>entry_url = Some (normalizeRelayUrl E (Some (fst uc))),
                    entry_read = Some (\<not> negated (get_prop ''read'' c)),
                    entry_write = Some (\<not> negated (get_prop ''write'' c))\<rparr>)"

definition entry_isRelay :: "env \<Rightarrow> relay_entry \<Rightarrow> bool" where
  "entry_isRelay E r = (case entry_url r of None \<Rightarrow> False | Some u \<Rightarrow> isRelay E u)"

definition getValue_kind3 :: "env \<Rightarrow> event \<Rightarrow> profile \<Rightarrow> js_error + pvalue option" where
  "getValue_kind3 E e p =
     (case parseJson E (ev_content e) of
        None \<Rightarrow> Inr None
      | Some j \<Rightarrow>
          (case entries j of
             None \<Rightarrow> Inr None
           | Some kvs \<Rightarrow>
               (case those (map (relay_of_conditions E) kvs) of
                  None \<Rightarrow> Inr None
                | Some rs \<Rightarrow> Inr (Some (RelayList (filter (entry_isRelay E) rs))))))"

definition getValue_kind10000 :: "event \<Rightarrow> profile \<Rightarrow> js_error + pvalue option" where
  "getValue_kind10000 e p = Inr (map_option TagList (ev_tags e))"

definition getValue_kind10001 :: "event \<Rightarrow> profile \<Rightarrow> js_error + pvalue option" where
  "getValue_kind10001 e p =
     (case ev_tags e of
        None \<Rightarrow> Inl TypeError
      | Some ts \<Rightarrow>
          Inr (Some (RelayList (map (\<lambda>t. \<lparr>entry_url = tag_nth t 0,
                                            entry_read = Some (tag_nth t 1 \<noteq> Some ''!''),
                                            entry_write = Some (tag_nth t 2 \<noteq> Some ''!'')\<rparr>) ts))))"

text \<open>\<open>mode || dflt\<close>\<close>

definition mode_or :: "string option \<Rightarrow> string \<Rightarrow> string" where
  "mode_or m dflt = (case m of None \<Rightarrow> dflt | Some s \<Rightarrow> if s = [] then dflt else s)"

definition getValue_kind10002 :: "event \<Rightarrow> profile \<Rightarrow> js_error + pvalue option" where
  "getValue_kind10002 e p =
     (case tags_type ''r'' e of
        Inl err \<Rightarrow> Inl err
      | Inr ts \<Rightarrow>
          Inr (Some (RelayList (map (\<lambda>t. \<lparr>entry_url = tag_nth t 1,
                                            entry_read = Some (mode_or (tag_nth t 2) ''read'' = ''read''),
                                            entry_write = Some (mode_or (tag_nth t 2) ''write'' = ''write'')\<rparr>) ts))))"

subsection \<open>Rooms\<close>

definition room_content :: "env \<Rightarrow> event \<Rightarrow> (string \<times> json) list option" where
  "room_content E e =
     (case parseJson E (ev_content e) of None \<Rightarrow> None | Some j \<Rightarrow> pick (roomAttrs E) j)"

definition rooms_patch ::
  "string \<Rightarrow> string \<Rightarrow> int \<Rightarrow> (string \<times> json) list \<Rightarrow> (string \<rightharpoonup> room) \<Rightarrow> (string \<rightharpoonup> room)" where
  "rooms_patch rid pubkey created content tbl =
     tbl(rid \<mapsto>
       (case tbl rid of
          None \<Rightarrow> \<lparr>room_id = rid, room_pubkey = pubkey, room_updated_at = Some created,
                    room_attrs = map_of content\<rparr>
        | Some r \<Rightarrow> r\<lparr>room_id := rid, room_pubkey := pubkey, room_updated_at := Some created,
                      room_attrs := room_attrs r ++ map_of content\<rparr>))"

text \<open>\<open>rooms.get(rid)?.updated_at\<close>\<close>

definition room_ts :: "state \<Rightarrow> string \<Rightarrow> int option" where
  "room_ts st rid = (case rooms st rid of None \<Rightarrow> None | Some r \<Rightarrow> room_updated_at r)"

text \<open>The body that the handlers of kind 40 and kind 41 share, from \<open>rooms.get\<close> on.\<close>

definition room_update :: "env \<Rightarrow> string \<Rightarrow> event \<Rightarrow> state \<Rightarrow> state" where
  "room_update E rid e st =
     (if stale (ev_created_at e) (room_ts st rid)
      then st
      else (case room_content E e of
              None \<Rightarrow> st
            | Some c \<Rightarrow>
                if \<not> truthy_opt (map_of c ''name'') then st
                else st\<lparr>rooms := rooms_patch rid (ev_pubkey e) (ev_created_at e) c (rooms st)\<rparr>))"

definition handle_kind40 :: "env \<Rightarrow> event \<Rightarrow> state \<Rightarrow> state" where
  "handle_kind40 E e st = room_update E (ev_id e) e st"

definition handle_kind41 :: "env \<Rightarrow> event \<Rightarrow> state \<Rightarrow> js_error + state" where
  "handle_kind41 E e st =
     (case tags_type ''e'' e of
        Inl err \<Rightarrow> Inl err
      | Inr ts \<Rightarrow>
          (case ts of
             [] \<Rightarrow> Inr st
           | t # _ \<Rightarrow>
               (case tag_nth t 1 of
                  None \<Rightarrow> Inr st
                | Some rid \<Rightarrow> if rid = [] then Inr st else Inr (room_update E rid e st))))"

subsection \<open>Route evidence of the event kinds\<close>

definition routes_kind2 :: "env \<Rightarrow> int \<Rightarrow> event \<Rightarrow> state \<Rightarrow> state" where
  "routes_kind2 E now e st =
     addRoute E now (ev_pubkey e) (Some (ev_content e)) ''kind:2'' ''write'' (ev_created_at e)
       (addRoute E now (ev_pubkey e) (Some (ev_content e)) ''kind:2'' ''read'' (ev_created_at e) st)"

text \<open>
  Kind 3: the \<open>forEach\<close> over the entries stops at the first entry whose conditions are
  \<open>null\<close> (the destructuring throws, \<open>tryJson\<close> swallows it); the routes added before stay.
\<close>

fun routes_kind3_entries :: "env \<Rightarrow> int \<Rightarrow> event \<Rightarrow> (string \<times> json) list \<Rightarrow> state \<Rightarrow> state" where
  "routes_kind3_entries E now e [] st = st"
| "routes_kind3_entries E now e ((url, c) # rest) st =
     (case c of
        JNull \<Rightarrow> st
      | _ \<Rightarrow>
          let st1 = (if \<not> negated (get_prop ''write'' c)
                     then addRoute E now (ev_pubkey e) (Some url) ''kind:3'' ''write'' (ev_created_at e) st
                     else st);
              st2 = (if \<not> negated (get_prop ''read'' c)
                     then addRoute E now (ev_pubkey e) (Some url) ''kind:3'' ''read'' (ev_created_at e) st1
                     else st1)
          in routes_kind3_entries E now e rest st2)"

definition routes_kind3 :: "env \<Rightarrow> int \<Rightarrow> event \<Rightarrow> state \<Rightarrow> state" where
  "routes_kind3 E now e st =
     (case parseJson E (ev_content e) of
        None \<Rightarrow> st
      | Some j \<Rightarrow>
          (case entries j of
             None \<Rightarrow> st
           | Some kvs \<Rightarrow> routes_kind3_entries E now e kvs st))"

text \<open>Kind 10002: every tag \<open>[_, url, mode]\<close>, whatever its first element.\<close>

fun routes_kind10002_tags :: "env \<Rightarrow> int \<Rightarrow> event \<Rightarrow> string list list \<Rightarrow> state \<Rightarrow> state" where
  "routes_kind10002_tags E now e [] st = st"
| "routes_kind10002_tags E now e (t # ts) st =
     routes_kind10002_tags E now e ts
       (case tag_nth t 2 of
          None \<Rightarrow>
            addRoute E now (ev_pubkey e) (tag_nth t 1) ''kind:10002'' ''write'' (ev_created_at e)
              (addRoute E now (ev_pubkey e) (tag_nth t 1) ''kind:10002'' ''read'' (ev_created_at e) st)
        | Some m \<Rightarrow>
            if m \<noteq> [] then
              addRoute E now (ev_pubkey e) (tag_nth t 1) ''kind:10002'' m (ev_created_at e) st
            else
              addRoute E now (ev_pubkey e) (tag_nth t 1) ''kind:10002'' ''write'' (ev_created_at e)
                (addRoute E now (ev_pubkey e) (tag_nth t 1) ''kind:10002'' ''read'' (ev_created_at e) st))"

definition routes_kind10002 :: "env \<Rightarrow> int \<Rightarrow> event \<Rightarrow> state \<Rightarrow> js_error + state" where
  "routes_kind10002 E now e st =
     (case ev_tags e of
        None \<Rightarrow> Inl TypeError
      | Some ts \<Rightarrow> Inr (routes_kind10002_tags E now e ts st))"

subsection \<open>The dispatcher\<close>

type_synonym handler = "event \<Rightarrow> state \<Rightarrow> js_error + state"

text \<open>
  The registry \<open>handlers\<close> after the module has loaded: per kind, the handlers in the order of
  the \<open>addHandler\<close> calls.  \<open>now\<close> is the reading of the clock while the batch is handled.
\<close>

definition handlers :: "env \<Rightarrow> int \<Rightarrow> int \<Rightarrow> handler list" where
  "handlers E now k =
     (if k = 0 then [\<lambda>e st. Inr (handle_kind0 E now e st)]
      else if k = 2 then
        [profileHandler Relays (getValue_kind2 E), \<lambda>e st. Inr (routes_kind2 E now e st)]
      else if k = 3 then
        [handle_petnames now, profileHandler Relays (getValue_kind3 E),
         \<lambda>e st. Inr (routes_kind3 E now e st)]
      else if k = 10000 then [profileHandler Mutes getValue_kind10000]
      else if k = 10001 then [profileHandler Relays getValue_kind10001]
      else if k = 10002 then [profileHandler Relays getValue_kind10002, routes_kind10002 E now]
      else if k = 40 then [\<lambda>e st. Inr (handle_kind40 E e st)]
      else if k = 41 then [handle_kind41 E]
      else [])"

text \<open>
  Nothing catches what a handler throws: the exception leaves \<open>processEvents\<close>, whose promise
  rejects, with the tables as they were at the throw.  The result is the final state and the
  exception, if any.
\<close>

fun run_handlers :: "handler list \<Rightarrow> event \<Rightarrow> state \<Rightarrow> state \<times> js_error option" where
  "run_handlers [] e st = (st, None)"
| "run_handlers (h # hs) e st =
     (case h e st of
        Inl err \<Rightarrow> (st, Some err)
      | Inr st' \<Rightarrow> run_handlers hs e st')"

definition handle_event :: "env \<Rightarrow> int \<Rightarrow> string option \<Rightarrow> event \<Rightarrow> state \<Rightarrow> state \<times> js_error option" where
  "handle_event E now userPubkey e st =
     run_handlers (handlers E now (ev_kind e)) e
       (if Some (ev_pubkey e) = userPubkey
        then st\<lparr>userEvents := (userEvents st)(ev_id e \<mapsto> e)\<rparr> else st)"

fun process_chunk :: "env \<Rightarrow> int \<Rightarrow> string option \<Rightarrow> event list \<Rightarrow> state \<Rightarrow> state \<times> js_error option" where
  "process_chunk E now userPubkey [] st = (st, None)"
| "process_chunk E now userPubkey (e # es) st =
     (case handle_event E now userPubkey e st of
        (st', Some err) \<Rightarrow> (st', Some err)
      | (st', None) \<Rightarrow> process_chunk E now userPubkey es st')"

fun process_chunks :: "env \<Rightarrow> int \<Rightarrow> string option \<Rightarrow> event list list \<Rightarrow> state \<Rightarrow> state \<times> js_error option" where
  "process_chunks E now userPubkey [] st = (st, None)"
| "process_chunks E now userPubkey (c # cs) st =
     (case process_chunk E now userPubkey c st of
        (st', Some err) \<Rightarrow> (st', Some err)
      | (st', None) \<Rightarrow> process_chunks E now userPubkey cs st')"

text \<open>\<open>chunk(n, xs)\<close> of hurdak: consecutive pieces of \<open>n\<close> elements.\<close>

function chunk :: "nat \<Rightarrow> 'a list \<Rightarrow> 'a list list" where
  "chunk n xs = (if n = 0 \<or> xs = [] then [] else take n xs # chunk n (drop n xs))"
  by pat_completeness auto
termination
  by (relation "measure (\<lambda>(n, xs). length xs)") auto

declare chunk.simps [simp del]

text \<open>
  The batch is a sequence whose \<open>null\<close> entries (\<open>None\<close>) are filtered out; a single event is
  the sequence of length one.  The pause between two chunks changes no table.
\<close>

definition processEvents :: "env \<Rightarrow> int \<Rightarrow> event option list \<Rightarrow> state \<Rightarrow> state \<times> js_error option" where
  "processEvents E now events st =
     process_chunks E now (getPubkey st) (chunk 100 (List.map_filter (\<lambda>x. x) events)) st"




subsection \<open>Auxiliary notions: last-write-wins registers\<close>


definition payloads_at :: "('e \<Rightarrow> (int \<times> 'u) option) \<Rightarrow> int \<Rightarrow> 'e list \<Rightarrow> 'u list" where
  "payloads_at act M es =
     List.map_filter (\<lambda>e. case act e of None \<Rightarrow> None | Some (t, u) \<Rightarrow> if t = M then Some u else None) es"


subsection \<open>Auxiliary notions: what the events of a batch do to one person and to one room\<close>

text \<open>A person without the engine-local write time, and the people table seen that way.\<close>

definition forget :: "person \<Rightarrow> person" where
  "forget p = p\<lparr>updated_at := None\<rparr>"


text \<open>
  The timestamp and the parsed content that a kind-0 event offers to the person \<open>pk\<close>: none
  when the handler leaves through \<open>tryJson\<close> before \<open>updatePerson\<close>.
\<close>

definition kind0_payload :: "env \<Rightarrow> string \<Rightarrow> event \<Rightarrow> (int \<times> json) option" where
  "kind0_payload E pk e =
     (if ev_kind e = 0 \<and> ev_pubkey e = pk then
        (case parseJson E (ev_content e) of
           None \<Rightarrow> None
         | Some k \<Rightarrow>
            (case k of
               JNull \<Rightarrow> None
             | _ \<Rightarrow>
                (case kind0_address k of
                   None \<Rightarrow> Some (ev_created_at e, k)
                 | Some a \<Rightarrow>
                     if \<not> truthy a then Some (ev_created_at e, k)
                     else (case a of JStr s \<Rightarrow> Some (ev_created_at e, k) | _ \<Rightarrow> None))))
      else None)"

definition petnames_payload :: "string \<Rightarrow> event \<Rightarrow> (int \<times> string list list) option" where
  "petnames_payload pk e =
     (if ev_kind e = 3 \<and> ev_pubkey e = pk then
        (case ev_tags e of
           None \<Rightarrow> None
         | Some ts \<Rightarrow> Some (ev_created_at e, filter (\<lambda>t. tag_nth t 0 = Some ''p'') ts))
      else None)"

text \<open>The patch that an event makes \<open>updatePerson\<close> apply to the row of \<open>pk\<close>, if any.\<close>

definition person_patch :: "env \<Rightarrow> string \<Rightarrow> event \<Rightarrow> person option \<Rightarrow> pdata option" where
  "person_patch E pk e row =
     (case kind0_payload E pk e of
        Some (t, k) \<Rightarrow>
          if stale t (person_field kind0_updated_at row) then None
          else Some (empty_pdata\<lparr>kind0 := Some (kind0_merge (person_field kind0 row) k),
                                 kind0_updated_at := Some t\<rparr>)
      | None \<Rightarrow>
         (case petnames_payload pk e of
            Some (t, ps) \<Rightarrow>
              if stale t (person_field petnames_updated_at row) then None
              else Some (empty_pdata\<lparr>petnames_updated_at := Some t, petnames := Some ps\<rparr>)
          | None \<Rightarrow> None))"

definition apply_patch :: "string \<Rightarrow> pdata \<Rightarrow> person option \<Rightarrow> person" where
  "apply_patch pk d row =
     (case row of
        None \<Rightarrow> \<lparr>person_pubkey = pk, updated_at = None, person_data = patch_pdata empty_pdata d\<rparr>
      | Some p \<Rightarrow> p\<lparr>person_pubkey := pk, updated_at := None,
                    person_data := patch_pdata (person_data p) d\<rparr>)"












subsection \<open>A concrete environment and concrete tables\<close>

text \<open>
  An instance of the helper functions, for evaluating the definitions on concrete inputs: a
  shareable relay url starts with \<open>wss://\<close>, normalisation and the hash are the identity, and
  the parser knows a few contents.
\<close>

definition example_parse :: "string \<Rightarrow> json option" where
  "example_parse s =
     (if s = ''alice'' then Some (JObj [(''name'', JStr ''Alice'')])
      else if s = ''bob'' then Some (JObj [(''name'', JStr ''Bob''), (''nip05'', JStr ''bob@example.com''),
                                           (''lud16'', JStr ''Bob@Example.com'')])
      else if s = ''room'' then Some (JObj [(''name'', JStr ''lobby''), (''about'', JStr ''chat'')])
      else if s = ''null'' then Some JNull
      else if s = ''[]'' then Some (JArr [])
      else if s = ''{}'' then Some (JObj [])
      else None)"

definition example_env :: env where
  "example_env =
     \<lparr>isShareableRelay = (\<lambda>u. case u of None \<Rightarrow> False | Some s \<Rightarrow> take 6 s = ''wss://''),
      normalizeRelayUrl = (\<lambda>u. case u of None \<Rightarrow> [] | Some s \<Rightarrow> s),
      hash = (\<lambda>s. s),
      isRelay = (\<lambda>s. take 6 s = ''wss://''),
      uniqByUrl = (\<lambda>rs. rs),
      roomAttrs = [''name'', ''about'', ''picture''],
      parseJson = example_parse,
      toLowerCase = (\<lambda>s. s),
      bech32ToHex = (\<lambda>s. None),
      hexToBech32 = (\<lambda>pre s. pre @ ''1'' @ s)\<rparr>"

definition example_profile :: profile where
  "example_profile =
     \<lparr>profile_pubkey = Some ''me'', profile_data = empty_pdata,
      field = (\<lambda>k. None)(Relays := Some (RelayList [])),
      field_updated_at = (\<lambda>k. None)\<rparr>"

definition empty_state :: state where
  "empty_state =
     \<lparr>relays = Map.empty, routes = Map.empty, people = Map.empty, rooms = Map.empty,
      userEvents = Map.empty, profile = example_profile, lookups = []\<rparr>"

text \<open>
  Tables in which the person \<open>me\<close> (the user), the user's relay list and the room \<open>r1\<close> all
  carry the timestamp 100.
\<close>

definition example_state :: state where
  "example_state =
     empty_state
       \<lparr>people := [''me'' \<mapsto>
            \<lparr>person_pubkey = ''me'', updated_at = Some 7,
             person_data = empty_pdata
               \<lparr>kind0 := Some [''name'' \<mapsto> JStr ''Old''], kind0_updated_at := Some 100,
                petnames := Some [[''p'', ''x'']], petnames_updated_at := Some 100\<rparr>\<rparr>],
        rooms := [''r1'' \<mapsto>
            \<lparr>room_id = ''r1'', room_pubkey = ''me'', room_updated_at = Some 100,
             room_attrs = [''name'' \<mapsto> JStr ''old room'']\<rparr>],
        profile := example_profile
            \<lparr>field := (\<lambda>k. None)(Relays := Some (RelayList
                [\<lparr>entry_url = Some ''wss://a'', entry_read = Some True, entry_write = Some True\<rparr>])),
             field_updated_at := (\<lambda>k. None)(Relays := Some 100)\<rparr>\<rparr>"

text \<open>An event of the user with the given kind, timestamp and content; its id is \<open>r1\<close>.\<close>

definition example_event :: "int \<Rightarrow> int \<Rightarrow> string \<Rightarrow> string list list option \<Rightarrow> event" where
  "example_event k t c ts =
     \<lparr>ev_id = ''r1'', ev_pubkey = ''me'', ev_kind = k, ev_created_at = t, ev_content = c,
      ev_tags = ts\<rparr>"


definition example_calls :: "route_call list" where
  "example_calls =
    [\<lparr>call_now = 1000, call_pubkey = ''pk1'', call_url = Some ''wss://a'', call_type = ''kind:10002'',
      call_mode = ''write'', call_created_at = 1000\<rparr>,
     \<lparr>call_now = 5000000, call_pubkey = ''pk1'', call_url = Some ''wss://a'', call_type = ''kind:2'',
      call_mode = ''write'', call_created_at = 10\<rparr>,
     \<lparr>call_now = 1296000, call_pubkey = ''pk1'', call_url = Some ''wss://a'', call_type = ''kind:3'',
      call_mode = ''write'', call_created_at = 0\<rparr>]"

definition example_routing :: state where
  "example_routing = addRoutes example_env example_calls empty_state"

section \<open>The reputation engine\<close>













text \<open>
  Claim C4.  A call of \<open>addRoute\<close> whose evidence score is not strictly positive leaves the
  whole state, in particular the route table and the relay table, unchanged; this covers an
  observation that is thirty days old or older and an evidence type without a weight.
\<close>

theorem addRoute_nonpositive_noop:
  "(\<not> score_positive (evidence_score now t created_at) \<longrightarrow>
      addRoute E now pubkey rawUrl t mode created_at st = st)
   \<and> (timedelta_30_days \<le> now - created_at \<longrightarrow>
      addRoute E now pubkey rawUrl t mode created_at st = st)
   \<and> (getWeight t = None \<longrightarrow> addRoute E now pubkey rawUrl t mode created_at st = st)"
proof -
  have a: "addRoute E now pubkey rawUrl t mode created_at st = st"
    if "\<not> score_positive (evidence_score now t created_at)"
    using that by (simp add: addRoute_def Let_def)
  have w: "0 \<le> w" if "getWeight t = Some w" for w
    using that by (auto split: if_splits)
  have b: "\<not> score_positive (evidence_score now t created_at)"
    if old: "timedelta_30_days \<le> now - created_at"
  proof (cases "getWeight t")
    case None
    then show ?thesis by (simp add: evidence_score_def score_positive_def)
  next
    case (Some w)
    have "0 < real_of_int timedelta_30_days" by (simp add: timedelta_30_days_def)
    with old have "1 \<le> real_of_int (now - created_at) / real_of_int timedelta_30_days"
      by (simp add: le_divide_eq)
    then have "w * (1 - real_of_int (now - created_at) / real_of_int timedelta_30_days) \<le> 0"
      using w [OF Some] by (simp add: mult_nonneg_nonpos)
    with Some show ?thesis by (simp add: evidence_score_def score_positive_def)
  qed
  have c: "\<not> score_positive (evidence_score now t created_at)" if "getWeight t = None"
    using that by (simp add: evidence_score_def score_positive_def)
  from a b c show ?thesis by blast
qed

theorem addRoute_nonpositive_noop_witness:
  "\<not> score_positive (evidence_score 3000000 ''kind:3'' 0)
   \<and> timedelta_30_days \<le> 3000000 - 0
   \<and> getWeight ''kind:1'' = None
   \<and> addRoute example_env 3000000 ''pk1'' (Some ''wss://a'') ''kind:3'' ''write'' 0 example_routing = example_routing
   \<and> addRoute example_env 1000 ''pk1'' (Some ''wss://a'') ''kind:1'' ''write'' 1000 example_routing = example_routing"
  using addRoute_nonpositive_noop [of 3000000 "''kind:3''" 0 example_env "''pk1''" "Some ''wss://a''" "''write''" example_routing]
    addRoute_nonpositive_noop [of 1000 "''kind:1''" 1000 example_env "''pk1''" "Some ''wss://a''" "''write''" example_routing]
  by (simp add: evidence_score_def score_positive_def timedelta_30_days_def)

text \<open>
  Claim C5.  From an empty route table, evidence of type \<open>kind:10002\<close> observed now for
  \<open>pk1\<close>, \<open>wss://relay.example\<close>, \<open>write\<close> gives a route with count 1 and score 1; evidence of
  type \<open>kind:3\<close> observed fifteen days before the second call scores 0.4 and folds to count 2
  and score 0.7.
\<close>

theorem route_scoring_example:
  assumes "isShareableRelay E (Some ''wss://relay.example'')" and "routes st = Map.empty"
  shows "let rid = route_key E ''pk1'' (Some ''wss://relay.example'') ''write'';
             st1 = addRoute E now ''pk1'' (Some ''wss://relay.example'') ''kind:10002'' ''write'' now st;
             st2 = addRoute E now' ''pk1'' (Some ''wss://relay.example'') ''kind:3'' ''write''
                     (now' - 15 * 24 * 60 * 60) st1
         in (\<exists>r. routes st1 rid = Some r \<and> count r = 1 \<and> score r = 1)
          \<and> evidence_score now' ''kind:3'' (now' - 15 * 24 * 60 * 60) = Some (4 / 10)
          \<and> (\<exists>r. routes st2 rid = Some r \<and> count r = 2 \<and> score r = 7 / 10)"
  using assms
  by (simp add: Let_def addRoute_def route_key_def evidence_score_def score_positive_def
      timedelta_30_days_def route_defaults_def)

theorem route_scoring_example_witness:
  "isShareableRelay example_env (Some ''wss://relay.example'') \<and> routes empty_state = Map.empty
   \<and> (\<exists>r. routes (addRoute example_env 1700000000 ''pk1'' (Some ''wss://relay.example'') ''kind:3'' ''write''
               (1700000000 - 15 * 24 * 60 * 60)
               (addRoute example_env 1600000000 ''pk1'' (Some ''wss://relay.example'') ''kind:10002'' ''write''
                  1600000000 empty_state))
            ''pk1wss://relay.examplewrite'' = Some r \<and> count r = 2 \<and> score r = 7 / 10)"
proof -
  have h1: "isShareableRelay example_env (Some ''wss://relay.example'')"
    by (simp add: example_env_def)
  have h2: "routes empty_state = Map.empty" by (simp add: empty_state_def)
  have k: "route_key example_env ''pk1'' (Some ''wss://relay.example'') ''write'' = ''pk1wss://relay.examplewrite''"
    by (simp add: route_key_def example_env_def)
  show ?thesis
    using route_scoring_example [OF h1 h2, of 1600000000 1700000000] h1 h2
    by (simp add: Let_def k)
qed

section \<open>The last-write-wins merger\<close>

lemma stale_simps [simp]:
  "stale t None = False" "stale t (Some u) = (t < u)"
  by (simp_all add: stale_def)

lemma patched_simps [simp]:
  "patched old None = old" "patched old (Some v) = Some v"
  by (simp_all add: patched_def)

lemma people_updatePerson:
  "people (updatePerson now pk d st) = people_patch now pk d (people st)"
  by (simp add: updatePerson_def Let_def getPubkey_def)

lemma person_field_people_patch:
  "person_field f (people_patch now pk d tbl pk) =
     f (patch_pdata (case tbl pk of None \<Rightarrow> empty_pdata | Some p \<Rightarrow> person_data p) d)"
  by (simp add: person_field_def people_patch_def split: option.splits)

lemma people_launch [simp]: "people (launch l st) = people st"
  by (simp add: launch_def)

lemma handle_kind0_stale:
  "stale (ev_created_at e) (person_field kind0_updated_at (people st (ev_pubkey e))) \<Longrightarrow>
   handle_kind0 E now e st = st"
  by (simp add: handle_kind0_def split: option.splits)

lemma handle_kind0_accept:
  assumes ns: "\<not> stale (ev_created_at e) (person_field kind0_updated_at (people st (ev_pubkey e)))"
    and p: "parseJson E (ev_content e) = Some k" and nn: "k \<noteq> JNull"
    and a: "\<forall>a. kind0_address k = Some a \<and> truthy a \<longrightarrow> (\<exists>s. a = JStr s)"
  shows "person_field kind0 (people (handle_kind0 E now e st) (ev_pubkey e)) =
           Some (kind0_merge (person_field kind0 (people st (ev_pubkey e))) k)
       \<and> person_field kind0_updated_at (people (handle_kind0 E now e st) (ev_pubkey e)) =
           Some (ev_created_at e)"
proof -
  define d where "d = empty_pdata\<lparr>kind0 := Some (kind0_merge (person_field kind0 (people st (ev_pubkey e))) k),
                                   kind0_updated_at := Some (ev_created_at e)\<rparr>"
  define st1 where "st1 = (case get_prop ''nip05'' k of
                           None \<Rightarrow> st
                         | Some n \<Rightarrow> if truthy n then launch (VerifyNip05 (ev_pubkey e) n) st else st)"
  have p1: "people st1 = people st"
    by (simp add: st1_def split: option.splits)
  have "\<exists>st2. handle_kind0 E now e st = updatePerson now (ev_pubkey e) d st2 \<and> people st2 = people st"
  proof (cases "kind0_address k")
    case None
    with ns p nn p1 show ?thesis
      by (cases k) (auto simp: handle_kind0_def Let_def d_def st1_def)
  next
    case (Some x)
    show ?thesis
    proof (cases "truthy x")
      case False
      with Some ns p nn p1 show ?thesis
        by (cases k) (auto simp: handle_kind0_def Let_def d_def st1_def)
    next
      case True
      with a Some obtain s where "x = JStr s" by auto
      with Some True ns p nn p1 show ?thesis
        by (cases k) (auto simp: handle_kind0_def Let_def d_def st1_def)
    qed
  qed
  then obtain st2 where h: "handle_kind0 E now e st = updatePerson now (ev_pubkey e) d st2"
    and p2: "people st2 = people st" by blast
  show ?thesis
    by (simp add: h people_updatePerson p2 person_field_people_patch patch_pdata_def d_def)
qed

lemma handle_petnames_stale:
  "stale (ev_created_at e) (person_field petnames_updated_at (people st (ev_pubkey e))) \<Longrightarrow>
   handle_petnames now e st = Inr st"
  by (simp add: handle_petnames_def)

lemma handle_petnames_accept:
  assumes "\<not> stale (ev_created_at e) (person_field petnames_updated_at (people st (ev_pubkey e)))"
    and "ev_tags e = Some ts"
  shows "\<exists>st'. handle_petnames now e st = Inr st'
       \<and> person_field petnames (people st' (ev_pubkey e)) = Some (filter (\<lambda>t. tag_nth t 0 = Some ''p'') ts)
       \<and> person_field petnames_updated_at (people st' (ev_pubkey e)) = Some (ev_created_at e)"
  using assms
  by (simp add: handle_petnames_def people_updatePerson person_field_people_patch patch_pdata_def)

lemma profileHandler_stale:
  "stale (ev_created_at e) (field_updated_at (profile st) key) \<Longrightarrow>
   profileHandler key getValue e st = Inr st"
  by (simp add: profileHandler_def Let_def)

lemma profileHandler_no_value:
  "getValue e (profile st) = Inr None \<Longrightarrow> profileHandler key getValue e st = Inr st"
  by (simp add: profileHandler_def Let_def)

lemma profileHandler_accept:
  assumes "\<not> stale (ev_created_at e) (field_updated_at (profile st) key)"
    and "profile_pubkey (profile st) = Some (ev_pubkey e)"
    and "getValue e (profile st) = Inr (Some v)"
  shows "\<exists>st'. profileHandler key getValue e st = Inr st'
       \<and> field (profile st') key = Some v
       \<and> field_updated_at (profile st') key = Some (ev_created_at e)"
  using assms by (simp add: profileHandler_def Let_def)

lemma room_update_stale:
  "stale (ev_created_at e) (room_ts st rid) \<Longrightarrow> room_update E rid e st = st"
  by (simp add: room_update_def room_ts_def)

lemma room_update_no_name:
  "room_content E e = None \<or> (\<exists>c. room_content E e = Some c \<and> \<not> truthy_opt (map_of c ''name'')) \<Longrightarrow>
   room_update E rid e st = st"
  by (auto simp: room_update_def)

lemma room_update_accept:
  assumes "\<not> stale (ev_created_at e) (room_ts st rid)"
    and "room_content E e = Some c" and "truthy_opt (map_of c ''name'')"
  shows "\<exists>r. rooms (room_update E rid e st) rid = Some r
       \<and> room_updated_at r = Some (ev_created_at e)
       \<and> room_pubkey r = ev_pubkey e
       \<and> room_attrs r = (case rooms st rid of None \<Rightarrow> Map.empty | Some r0 \<Rightarrow> room_attrs r0) ++ map_of c"
  using assms
  by (auto simp: room_update_def room_ts_def rooms_patch_def split: option.splits)

text \<open>
Claim C2.  The last-write-wins guard of every field-group (kind0 and petnames of a person,
  the keys of the user's profile, the metadata of a room): an event whose \<open>created_at\<close> is
  strictly less than the stored timestamp leaves the state as it is, in particular an event
  with \<open>created_at = 50\<close> against \<open>kind0_updated_at = 100\<close>; an event whose \<open>created_at\<close> equals
  the stored timestamp is accepted: the field takes the value extracted from the event and the
  timestamp is set, whenever the extraction gives a value.
\<close>

theorem lww_guard:
  "(stale (ev_created_at e) (person_field kind0_updated_at (people st (ev_pubkey e))) \<longrightarrow>
      handle_kind0 E now e st = st)
   \<and> (person_field kind0_updated_at (people st (ev_pubkey e)) = Some 100 \<and> ev_created_at e = 50 \<longrightarrow>
      handle_kind0 E now e st = st)
   \<and> (stale (ev_created_at e) (person_field petnames_updated_at (people st (ev_pubkey e))) \<longrightarrow>
      handle_petnames now e st = Inr st)
   \<and> (stale (ev_created_at e) (field_updated_at (profile st) key) \<longrightarrow>
      profileHandler key getValue e st = Inr st)
   \<and> (stale (ev_created_at e) (room_ts st (ev_id e)) \<longrightarrow> handle_kind40 E e st = st)
   \<and> (stale (ev_created_at e) (room_ts st rid) \<longrightarrow> room_update E rid e st = st)
   \<and> (person_field kind0_updated_at (people st (ev_pubkey e)) = Some (ev_created_at e)
        \<and> parseJson E (ev_content e) = Some k \<and> k \<noteq> JNull
        \<and> (\<forall>a. kind0_address k = Some a \<and> truthy a \<longrightarrow> (\<exists>s. a = JStr s)) \<longrightarrow>
      person_field kind0 (people (handle_kind0 E now e st) (ev_pubkey e)) =
        Some (kind0_merge (person_field kind0 (people st (ev_pubkey e))) k)
      \<and> person_field kind0_updated_at (people (handle_kind0 E now e st) (ev_pubkey e)) =
        Some (ev_created_at e))
   \<and> (person_field petnames_updated_at (people st (ev_pubkey e)) = Some (ev_created_at e)
        \<and> ev_tags e = Some ts \<longrightarrow>
      (\<exists>st'. handle_petnames now e st = Inr st'
         \<and> person_field petnames (people st' (ev_pubkey e)) =
             Some (filter (\<lambda>t. tag_nth t 0 = Some ''p'') ts)
         \<and> person_field petnames_updated_at (people st' (ev_pubkey e)) = Some (ev_created_at e)))
   \<and> (field_updated_at (profile st) key = Some (ev_created_at e)
        \<and> profile_pubkey (profile st) = Some (ev_pubkey e)
        \<and> getValue e (profile st) = Inr (Some v) \<longrightarrow>
      (\<exists>st'. profileHandler key getValue e st = Inr st'
         \<and> field (profile st') key = Some v
         \<and> field_updated_at (profile st') key = Some (ev_created_at e)))
   \<and> (room_ts st rid = Some (ev_created_at e)
        \<and> room_content E e = Some c \<and> truthy_opt (map_of c ''name'') \<longrightarrow>
      (\<exists>r. rooms (room_update E rid e st) rid = Some r
         \<and> room_updated_at r = Some (ev_created_at e)
         \<and> room_pubkey r = ev_pubkey e
         \<and> room_attrs r =
             (case rooms st rid of None \<Rightarrow> Map.empty | Some r0 \<Rightarrow> room_attrs r0) ++ map_of c))"
proof -
  have eq: "\<not> stale t (Some t)" for t by simp
  have a: "stale (ev_created_at e) (person_field kind0_updated_at (people st (ev_pubkey e)))"
    if "person_field kind0_updated_at (people st (ev_pubkey e)) = Some 100 \<and> ev_created_at e = 50"
    using that by simp
  show ?thesis
    using handle_kind0_stale [of e st E now] a
      handle_petnames_stale [of e st now]
      profileHandler_stale [of e st key getValue]
      room_update_stale [of e st "ev_id e" E] room_update_stale [of e st rid E]
      handle_kind0_accept [of e st E k now]
      handle_petnames_accept [of e st ts now]
      profileHandler_accept [of e st key getValue v]
      room_update_accept [of e st rid E c]
      eq [of "ev_created_at e"]
    unfolding handle_kind40_def
    by presburger
qed

lemma example_state_fields:
  "person_field kind0_updated_at (people example_state ''me'') = Some 100"
  "person_field petnames_updated_at (people example_state ''me'') = Some 100"
  "person_field kind0 (people example_state ''me'') = Some [''name'' \<mapsto> JStr ''Old'']"
  "field_updated_at (profile example_state) Relays = Some 100"
  "field_updated_at (profile example_state) Mutes = None"
  "profile_pubkey (profile example_state) = Some ''me''"
  "room_ts example_state ''r1'' = Some 100"
  "rooms example_state ''r1'' = Some \<lparr>room_id = ''r1'', room_pubkey = ''me'', room_updated_at = Some 100,
             room_attrs = [''name'' \<mapsto> JStr ''old room'']\<rparr>"
  by (simp_all add: example_state_def empty_state_def example_profile_def person_field_def
      empty_pdata_def room_ts_def)

lemma example_event_fields [simp]:
  "ev_id (example_event k t c ts) = ''r1''"
  "ev_pubkey (example_event k t c ts) = ''me''"
  "ev_kind (example_event k t c ts) = k"
  "ev_created_at (example_event k t c ts) = t"
  "ev_content (example_event k t c ts) = c"
  "ev_tags (example_event k t c ts) = ts"
  by (simp_all add: example_event_def)

lemma example_env_fields [simp]:
  "parseJson example_env = example_parse"
  "roomAttrs example_env = [''name'', ''about'', ''picture'']"
  "isShareableRelay example_env (Some u) = (take 6 u = ''wss://'')"
  "isShareableRelay example_env None = False"
  "normalizeRelayUrl example_env (Some u) = u"
  "hash example_env = (\<lambda>s. s)"
  "isRelay example_env u = (take 6 u = ''wss://'')"
  "uniqByUrl example_env = (\<lambda>rs. rs)"
  "toLowerCase example_env = (\<lambda>s. s)"
  "bech32ToHex example_env = (\<lambda>s. None)"
  "hexToBech32 example_env = (\<lambda>pre s. pre @ ''1'' @ s)"
  by (simp_all add: example_env_def)

lemma example_parse_simps [simp]:
  "example_parse ''alice'' = Some (JObj [(''name'', JStr ''Alice'')])"
  "example_parse ''room'' = Some (JObj [(''name'', JStr ''lobby''), (''about'', JStr ''chat'')])"
  "example_parse ''null'' = Some JNull"
  "example_parse ''{}'' = Some (JObj [])"
  "example_parse ''garbage'' = None"
  "example_parse ''bob'' = Some (JObj [(''name'', JStr ''Bob''), (''nip05'', JStr ''bob@example.com''),
                                           (''lud16'', JStr ''Bob@Example.com'')])"
  by (simp_all add: example_parse_def)

theorem lww_guard_witness:
  "stale 50 (person_field kind0_updated_at (people example_state ''me''))
   \<and> handle_kind0 example_env 7 (example_event 0 50 ''alice'' (Some [])) example_state = example_state
   \<and> handle_petnames 7 (example_event 0 50 ''alice'' (Some [])) example_state = Inr example_state
   \<and> profileHandler Relays getValue_kind10001 (example_event 0 50 ''alice'' (Some [])) example_state
        = Inr example_state
   \<and> handle_kind40 example_env (example_event 0 50 ''alice'' (Some [])) example_state = example_state
   \<and> person_field kind0_updated_at
        (people (handle_kind0 example_env 7 (example_event 0 100 ''alice'' (Some [])) example_state) ''me'')
        = Some 100
   \<and> person_field kind0
        (people (handle_kind0 example_env 7 (example_event 0 100 ''alice'' (Some [])) example_state) ''me'')
        = Some [''name'' \<mapsto> JStr ''Alice'']
   \<and> (\<exists>st'. handle_petnames 7 (example_event 0 100 ''alice'' (Some [])) example_state = Inr st'
          \<and> person_field petnames (people st' ''me'') = Some [])
   \<and> (\<exists>st'. profileHandler Relays getValue_kind10001 (example_event 0 100 ''alice'' (Some []))
              example_state = Inr st'
          \<and> field (profile st') Relays = Some (RelayList []))
   \<and> (\<exists>r. rooms (room_update example_env ''r1'' (example_event 0 100 ''room'' (Some [])) example_state) ''r1''
             = Some r \<and> room_updated_at r = Some 100)"
proof -
  have k: "kind0_address (JObj [(''name'', JStr ''Alice'')]) = None"
    by (simp add: kind0_address_def truthy_opt_def)
  have g: "getValue_kind10001 (example_event 0 100 ''alice'' (Some [])) (profile example_state)
             = Inr (Some (RelayList []))"
    by (simp add: getValue_kind10001_def)
  have c: "room_content example_env (example_event 0 100 ''room'' (Some []))
             = Some [(''name'', JStr ''lobby''), (''about'', JStr ''chat'')]"
    by (simp add: room_content_def List.map_filter_def)
  have m: "kind0_merge (Some [''name'' \<mapsto> JStr ''Old'']) (JObj [(''name'', JStr ''Alice'')])
             = [''name'' \<mapsto> JStr ''Alice'']"
    by (simp add: kind0_merge_def)
  show ?thesis
    using lww_guard [where e = "example_event 0 50 ''alice'' (Some [])" and st = example_state
        and E = example_env and now = 7 and key = Relays and getValue = getValue_kind10001
        and rid = "''r1''" and k = "JObj [(''name'', JStr ''Alice'')]" and ts = "[]"
        and v = "RelayList []" and c = "[]"]
      lww_guard [where e = "example_event 0 100 ''alice'' (Some [])" and st = example_state
        and E = example_env and now = 7 and key = Relays and getValue = getValue_kind10001
        and rid = "''r1''" and k = "JObj [(''name'', JStr ''Alice'')]" and ts = "[]"
        and v = "RelayList []" and c = "[]"]
      lww_guard [where e = "example_event 0 100 ''room'' (Some [])" and st = example_state
        and E = example_env and now = 7 and key = Relays and getValue = getValue_kind10001
        and rid = "''r1''" and k = "JObj [(''name'', JStr ''Alice'')]" and ts = "[]"
        and v = "RelayList []"
        and c = "[(''name'', JStr ''lobby''), (''about'', JStr ''chat'')]"]
    by (auto simp add: example_state_fields k g c m truthy_opt_def)
qed

lemma handle_event_kind0:
  "ev_kind e = 0 \<Longrightarrow>
   handle_event E now up e st =
     (handle_kind0 E now e
        (if Some (ev_pubkey e) = up then st\<lparr>userEvents := (userEvents st)(ev_id e \<mapsto> e)\<rparr> else st),
      None)"
  by (simp add: handle_event_def handlers_def)

text \<open>
Claim C9.  A kind-0 event whose \<open>created_at\<close> is strictly less than the stored
  \<open>kind0_updated_at\<close> of its pubkey launches neither lookup, whatever its content holds: the
  staleness guard returns before the two triggers.  This holds for the handler and for the
  dispatch of the event.
\<close>

theorem stale_kind0_launches_nothing:
  "stale (ev_created_at e) (person_field kind0_updated_at (people st (ev_pubkey e))) \<longrightarrow>
     lookups (handle_kind0 E now e st) = lookups st
     \<and> (ev_kind e = 0 \<longrightarrow>
          lookups (fst (handle_event E now userPubkey e st)) = lookups st
          \<and> snd (handle_event E now userPubkey e st) = None)"
proof
  assume s: "stale (ev_created_at e) (person_field kind0_updated_at (people st (ev_pubkey e)))"
  let ?st = "if Some (ev_pubkey e) = userPubkey
             then st\<lparr>userEvents := (userEvents st)(ev_id e \<mapsto> e)\<rparr> else st"
  have "people ?st = people st" by simp
  with s have "handle_kind0 E now e ?st = ?st"
    using handle_kind0_stale [of e ?st E now] by simp
  moreover have "lookups ?st = lookups st" by simp
  ultimately show "lookups (handle_kind0 E now e st) = lookups st
     \<and> (ev_kind e = 0 \<longrightarrow>
          lookups (fst (handle_event E now userPubkey e st)) = lookups st
          \<and> snd (handle_event E now userPubkey e st) = None)"
    using s by (simp add: handle_event_kind0 handle_kind0_stale)
qed

theorem stale_kind0_launches_nothing_witness:
  "stale 50 (person_field kind0_updated_at (people example_state ''me''))
   \<and> lookups (fst (handle_event example_env 7 (Some ''me'') (example_event 0 50 ''bob'' (Some []))
                    example_state)) = []
   \<and> lookups (fst (handle_event example_env 7 (Some ''me'') (example_event 0 100 ''bob'' (Some []))
                    example_state))
       = [VerifyNip05 ''me'' (JStr ''bob@example.com''), VerifyZapper ''me'' ''Bob@Example.com'']"
proof -
  have l: "lookups example_state = []"
    by (simp add: example_state_def empty_state_def)
  have a: "handle_kind0 example_env 7 (example_event 0 100 ''bob'' (Some []))
             (example_state\<lparr>userEvents := (userEvents example_state)(''r1'' \<mapsto> example_event 0 100 ''bob'' (Some []))\<rparr>)
           = updatePerson 7 ''me''
               (empty_pdata\<lparr>kind0 := Some (kind0_merge (Some [''name'' \<mapsto> JStr ''Old''])
                    (JObj [(''name'', JStr ''Bob''), (''nip05'', JStr ''bob@example.com''),
                           (''lud16'', JStr ''Bob@Example.com'')])),
                  kind0_updated_at := Some 100\<rparr>)
               (launch (VerifyZapper ''me'' ''Bob@Example.com'')
                 (launch (VerifyNip05 ''me'' (JStr ''bob@example.com''))
                   (example_state\<lparr>userEvents := (userEvents example_state)(''r1'' \<mapsto> example_event 0 100 ''bob'' (Some []))\<rparr>)))"
    by (simp add: handle_kind0_def Let_def example_state_fields kind0_address_def truthy_opt_def)
  have b: "lookups (updatePerson n p d s) = lookups s" for n p d s
    by (simp add: updatePerson_def Let_def)
  show ?thesis
    using stale_kind0_launches_nothing [where e = "example_event 0 50 ''bob'' (Some [])"
        and st = example_state and E = example_env and now = 7 and userPubkey = "Some ''me''"]
    by (simp add: example_state_fields l handle_event_kind0 a b launch_def)
qed

text \<open>
Claim C10.  Where no timestamp is stored (the person or the room is absent, or the timestamp
  is unset), the guard never discards: for every \<open>created_at\<close>, zero and negative ones
  included, the field takes the value extracted from the event and the timestamp becomes
  \<open>created_at\<close>, whenever the extraction gives a value.
\<close>

theorem missing_timestamp_accepts:
  "\<not> stale t None
   \<and> (people st (ev_pubkey e) = None \<longrightarrow>
        person_field kind0_updated_at (people st (ev_pubkey e)) = None
        \<and> person_field petnames_updated_at (people st (ev_pubkey e)) = None)
   \<and> (rooms st rid = None \<longrightarrow> room_ts st rid = None)
   \<and> (person_field kind0_updated_at (people st (ev_pubkey e)) = None
        \<and> parseJson E (ev_content e) = Some k \<and> k \<noteq> JNull
        \<and> (\<forall>a. kind0_address k = Some a \<and> truthy a \<longrightarrow> (\<exists>s. a = JStr s)) \<longrightarrow>
      person_field kind0 (people (handle_kind0 E now e st) (ev_pubkey e)) =
        Some (kind0_merge (person_field kind0 (people st (ev_pubkey e))) k)
      \<and> person_field kind0_updated_at (people (handle_kind0 E now e st) (ev_pubkey e)) =
        Some (ev_created_at e))
   \<and> (person_field petnames_updated_at (people st (ev_pubkey e)) = None
        \<and> ev_tags e = Some ts \<longrightarrow>
      (\<exists>st'. handle_petnames now e st = Inr st'
         \<and> person_field petnames (people st' (ev_pubkey e)) =
             Some (filter (\<lambda>t. tag_nth t 0 = Some ''p'') ts)
         \<and> person_field petnames_updated_at (people st' (ev_pubkey e)) = Some (ev_created_at e)))
   \<and> (field_updated_at (profile st) key = None
        \<and> profile_pubkey (profile st) = Some (ev_pubkey e)
        \<and> getValue e (profile st) = Inr (Some v) \<longrightarrow>
      (\<exists>st'. profileHandler key getValue e st = Inr st'
         \<and> field (profile st') key = Some v
         \<and> field_updated_at (profile st') key = Some (ev_created_at e)))
   \<and> (room_ts st (ev_id e) = None
        \<and> room_content E e = Some c \<and> truthy_opt (map_of c ''name'') \<longrightarrow>
      (\<exists>r. rooms (handle_kind40 E e st) (ev_id e) = Some r
         \<and> room_updated_at r = Some (ev_created_at e)
         \<and> room_pubkey r = ev_pubkey e
         \<and> room_attrs r =
             (case rooms st (ev_id e) of None \<Rightarrow> Map.empty | Some r0 \<Rightarrow> room_attrs r0) ++ map_of c))"
proof -
  have n: "\<not> stale u None" for u by simp
  have p: "person_field f (people st (ev_pubkey e)) = None" if "people st (ev_pubkey e) = None" for f :: "pdata \<Rightarrow> int option"
    using that by (simp add: person_field_def)
  have r: "room_ts st rid = None" if "rooms st rid = None"
    using that by (simp add: room_ts_def)
  show ?thesis
    using n [of t] n [of "ev_created_at e"] p [of kind0_updated_at] p [of petnames_updated_at] r
      handle_kind0_accept [of e st E k now]
      handle_petnames_accept [of e st ts now]
      profileHandler_accept [of e st key getValue v]
      room_update_accept [of e st "ev_id e" E c]
    unfolding handle_kind40_def
    by presburger
qed

lemma empty_state_fields:
  "people empty_state = Map.empty" "rooms empty_state = Map.empty"
  "routes empty_state = Map.empty" "relays empty_state = Map.empty"
  "lookups empty_state = []"
  "profile_pubkey (profile empty_state) = Some ''me''"
  "field_updated_at (profile empty_state) k = None"
  "field (profile empty_state) Relays = Some (RelayList [])"
  "field (profile empty_state) Mutes = None"
  by (simp_all add: empty_state_def example_profile_def)

theorem missing_timestamp_accepts_witness:
  "people empty_state ''me'' = None \<and> rooms empty_state ''r1'' = None
   \<and> field_updated_at (profile empty_state) Mutes = None
   \<and> person_field kind0_updated_at
        (people (handle_kind0 example_env 7
                   (example_event 0 (- 5) ''room'' (Some [[''p'', ''x''], [''e'', ''y'']])) empty_state) ''me'')
        = Some (- 5)
   \<and> (\<exists>st'. handle_petnames 7 (example_event 0 (- 5) ''room'' (Some [[''p'', ''x''], [''e'', ''y'']]))
               empty_state = Inr st'
          \<and> person_field petnames (people st' ''me'') = Some [[''p'', ''x'']]
          \<and> person_field petnames_updated_at (people st' ''me'') = Some (- 5))
   \<and> (\<exists>st'. profileHandler Mutes getValue_kind10000
               (example_event 0 (- 5) ''room'' (Some [[''p'', ''x''], [''e'', ''y'']])) empty_state = Inr st'
          \<and> field (profile st') Mutes = Some (TagList [[''p'', ''x''], [''e'', ''y'']])
          \<and> field_updated_at (profile st') Mutes = Some (- 5))
   \<and> (\<exists>r. rooms (handle_kind40 example_env
                    (example_event 0 (- 5) ''room'' (Some [[''p'', ''x''], [''e'', ''y'']])) empty_state) ''r1''
             = Some r \<and> room_updated_at r = Some (- 5))"
proof -
  let ?e = "example_event 0 (- 5) ''room'' (Some [[''p'', ''x''], [''e'', ''y'']])"
  have k: "kind0_address (JObj [(''name'', JStr ''lobby''), (''about'', JStr ''chat'')]) = None"
    by (simp add: kind0_address_def truthy_opt_def)
  have g: "getValue_kind10000 ?e (profile empty_state)
             = Inr (Some (TagList [[''p'', ''x''], [''e'', ''y'']]))"
    by (simp add: getValue_kind10000_def)
  have c: "room_content example_env ?e = Some [(''name'', JStr ''lobby''), (''about'', JStr ''chat'')]"
    by (simp add: room_content_def List.map_filter_def)
  have f: "filter (\<lambda>t. tag_nth t 0 = Some ''p'') [[''p'', ''x''], [''e'', ''y'']] = [[''p'', ''x'']]"
    by (simp add: tag_nth_def)
  show ?thesis
    using missing_timestamp_accepts [where e = ?e and st = empty_state and E = example_env
        and now = 7 and key = Mutes and getValue = getValue_kind10000 and rid = "''r1''"
        and k = "JObj [(''name'', JStr ''lobby''), (''about'', JStr ''chat'')]"
        and ts = "[[''p'', ''x''], [''e'', ''y'']]"
        and v = "TagList [[''p'', ''x''], [''e'', ''y'']]"
        and c = "[(''name'', JStr ''lobby''), (''about'', JStr ''chat'')]" and t = 0]
    by (auto simp add: empty_state_fields k g c tag_nth_def truthy_opt_def)
qed

section \<open>Payment-endpoint verification and missing values\<close>







lemma profile_updatePerson_field:
  "field (profile (updatePerson now pk d st)) = field (profile st)"
  "field_updated_at (profile (updatePerson now pk d st)) = field_updated_at (profile st)"
  "profile_pubkey (profile (updatePerson now pk d st)) = profile_pubkey (profile st)"
  by (simp_all add: updatePerson_def Let_def getPubkey_def)

text \<open>
Claim C7 as stated fails: a kind-3 event of the user with no \<open>p\<close> tag and the content
  \<open>{}\<close> (a relay list without entries) replaces the stored petnames and the stored relay list
  by empty lists and moves both timestamps from 100 to 200.
\<close>

theorem empty_value_counterexample:
  "person_field petnames (people example_state ''me'') = Some [[''p'', ''x'']]
   \<and> person_field petnames_updated_at (people example_state ''me'') = Some 100
   \<and> field (profile example_state) Relays = Some (RelayList
        [\<lparr>entry_url = Some ''wss://a'', entry_read = Some True, entry_write = Some True\<rparr>])
   \<and> field_updated_at (profile example_state) Relays = Some 100
   \<and> filter (\<lambda>t. tag_nth t 0 = Some ''p'') [[''e'', ''y'']] = []
   \<and> snd (processEvents example_env 7 [Some (example_event 3 200 ''{}'' (Some [[''e'', ''y'']]))]
             example_state) = None
   \<and> person_field petnames
        (people (fst (processEvents example_env 7
                        [Some (example_event 3 200 ''{}'' (Some [[''e'', ''y'']]))] example_state)) ''me'')
        = Some []
   \<and> person_field petnames_updated_at
        (people (fst (processEvents example_env 7
                        [Some (example_event 3 200 ''{}'' (Some [[''e'', ''y'']]))] example_state)) ''me'')
        = Some 200
   \<and> field (profile (fst (processEvents example_env 7
                        [Some (example_event 3 200 ''{}'' (Some [[''e'', ''y'']]))] example_state))) Relays
        = Some (RelayList [])
   \<and> field_updated_at (profile (fst (processEvents example_env 7
                        [Some (example_event 3 200 ''{}'' (Some [[''e'', ''y'']]))] example_state))) Relays
        = Some 200"
proof -
  let ?e = "example_event 3 200 ''{}'' (Some [[''e'', ''y'']])"
  let ?s0 = "example_state\<lparr>userEvents := (userEvents example_state)(''r1'' \<mapsto> ?e)\<rparr>"
  let ?s1 = "updatePerson 7 ''me''
               (empty_pdata\<lparr>petnames_updated_at := Some 200, petnames := Some []\<rparr>) ?s0"
  let ?s2 = "?s1\<lparr>profile := (profile ?s1)\<lparr>field := (field (profile ?s1))(Relays := Some (RelayList [])),
                 field_updated_at := (field_updated_at (profile ?s1))(Relays := Some 200)\<rparr>\<rparr>"
  have p0: "people ?s0 = people example_state" "profile ?s0 = profile example_state" by simp_all
  have h1: "handle_petnames 7 ?e ?s0 = Inr ?s1"
    by (simp add: handle_petnames_def p0 example_state_fields tag_nth_def)
  have g: "getValue_kind3 example_env ?e (profile ?s1) = Inr (Some (RelayList []))"
    by (simp add: getValue_kind3_def)
  have h2: "profileHandler Relays (getValue_kind3 example_env) ?e ?s1 = Inr ?s2"
    by (simp add: profileHandler_def Let_def g profile_updatePerson_field example_state_fields)
  have h3: "routes_kind3 example_env 7 ?e ?s2 = ?s2"
    by (simp add: routes_kind3_def)
  have ev: "handle_event example_env 7 (Some ''me'') ?e example_state = (?s2, None)"
    by (simp add: handle_event_def handlers_def h1 h2 h3)
  have c: "chunk 100 [?e] = [[?e]]"
    by (simp add: chunk.simps)
  have pe: "processEvents example_env 7 [Some ?e] example_state = (?s2, None)"
    by (simp add: processEvents_def List.map_filter_def c getPubkey_def example_state_fields ev)
  show ?thesis
    by (simp add: pe example_state_fields people_updatePerson person_field_people_patch
        patch_pdata_def profile_updatePerson_field tag_nth_def)
       (simp add: example_state_def example_profile_def empty_state_def person_field_def empty_pdata_def)
qed

lemma handle_kind0_unparsed:
  "parseJson E (ev_content e) = None \<Longrightarrow> handle_kind0 E now e st = st"
  by (simp add: handle_kind0_def)

lemma room_content_unparsed:
  "parseJson E (ev_content e) = None \<Longrightarrow> room_content E e = None"
  by (simp add: room_content_def)

text \<open>
Claim C7, as amended.  Where a handler tests the extracted value, an extraction that yields
  no value (\<open>undefined\<close>) changes neither the field nor its timestamp: a profile handler whose
  \<open>getValue\<close> is falsy, which is the case for kind-3 content that does not parse and for a
  kind-10000 event without tags; kind-0 content that does not parse; room content that does
  not parse or has no truthy \<open>name\<close>.  An empty list is a value: a profile handler stores an
  empty relay list together with the timestamp, and the petnames handler, which has no test,
  stores the empty list of \<open>p\<close> tags together with the timestamp.
\<close>

theorem no_value_no_update:
  "(getValue e (profile st) = Inr None \<longrightarrow> profileHandler key getValue e st = Inr st)
   \<and> (parseJson E (ev_content e) = None \<longrightarrow>
        getValue_kind3 E e p = Inr None
        \<and> profileHandler key (getValue_kind3 E) e st = Inr st
        \<and> handle_kind0 E now e st = st
        \<and> room_update E rid e st = st)
   \<and> (ev_tags e = None \<longrightarrow>
        getValue_kind10000 e p = Inr None \<and> profileHandler key getValue_kind10000 e st = Inr st)
   \<and> ((\<exists>c. room_content E e = Some c \<and> \<not> truthy_opt (map_of c ''name'')) \<longrightarrow>
        room_update E rid e st = st)
   \<and> (\<not> stale (ev_created_at e) (field_updated_at (profile st) key)
        \<and> profile_pubkey (profile st) = Some (ev_pubkey e)
        \<and> getValue e (profile st) = Inr (Some (RelayList [])) \<longrightarrow>
      (\<exists>st'. profileHandler key getValue e st = Inr st'
         \<and> field (profile st') key = Some (RelayList [])
         \<and> field_updated_at (profile st') key = Some (ev_created_at e)))
   \<and> (\<not> stale (ev_created_at e) (person_field petnames_updated_at (people st (ev_pubkey e)))
        \<and> ev_tags e = Some ts \<and> filter (\<lambda>t. tag_nth t 0 = Some ''p'') ts = [] \<longrightarrow>
      (\<exists>st'. handle_petnames now e st = Inr st'
         \<and> person_field petnames (people st' (ev_pubkey e)) = Some []
         \<and> person_field petnames_updated_at (people st' (ev_pubkey e)) = Some (ev_created_at e)))"
proof -
  have a: "getValue_kind3 E e q = Inr None" if "parseJson E (ev_content e) = None" for q
    using that by (simp add: getValue_kind3_def)
  have b: "getValue_kind10000 e q = Inr None" if "ev_tags e = None" for q
    using that by (simp add: getValue_kind10000_def)
  have c: "room_update E rid e st = st" if "parseJson E (ev_content e) = None"
    using that room_update_no_name [of E e rid st] by (simp add: room_content_unparsed)
  have d: "room_update E rid e st = st"
    if "\<exists>c. room_content E e = Some c \<and> \<not> truthy_opt (map_of c ''name'')"
    using that room_update_no_name [of E e rid st] by blast
  have f: "\<exists>st'. handle_petnames now e st = Inr st'
         \<and> person_field petnames (people st' (ev_pubkey e)) = Some []
         \<and> person_field petnames_updated_at (people st' (ev_pubkey e)) = Some (ev_created_at e)"
    if "\<not> stale (ev_created_at e) (person_field petnames_updated_at (people st (ev_pubkey e)))
        \<and> ev_tags e = Some ts \<and> filter (\<lambda>t. tag_nth t 0 = Some ''p'') ts = []"
    using that handle_petnames_accept [of e st ts now] by simp
  show ?thesis
    using a [of p] a [of "profile st"] b [of p] b [of "profile st"] c d f
      profileHandler_no_value [of getValue e st key]
      profileHandler_no_value [of "getValue_kind3 E" e st key]
      profileHandler_no_value [of getValue_kind10000 e st key]
      handle_kind0_unparsed [of E e now st]
      profileHandler_accept [of e st key getValue "RelayList []"]
    by presburger
qed

theorem no_value_no_update_witness:
  "parseJson example_env (ev_content (example_event 3 200 ''garbage'' None)) = None
   \<and> ev_tags (example_event 3 200 ''garbage'' None) = None
   \<and> \<not> stale 200 (field_updated_at (profile example_state) Relays)
   \<and> profileHandler Relays (getValue_kind3 example_env) (example_event 3 200 ''garbage'' None)
        example_state = Inr example_state
   \<and> profileHandler Mutes getValue_kind10000 (example_event 3 200 ''garbage'' None)
        example_state = Inr example_state
   \<and> handle_kind0 example_env 7 (example_event 3 200 ''garbage'' None) example_state = example_state
   \<and> room_update example_env ''r1'' (example_event 3 200 ''garbage'' None) example_state = example_state
   \<and> room_update example_env ''r1'' (example_event 3 200 ''{}'' None) example_state = example_state"
proof -
  have c: "room_content example_env (example_event 3 200 ''{}'' None) = Some []"
    by (simp add: room_content_def List.map_filter_def)
  have i1: "profileHandler Relays (getValue_kind3 example_env) (example_event 3 200 ''garbage'' None)
        example_state = Inr example_state
     \<and> handle_kind0 example_env 7 (example_event 3 200 ''garbage'' None) example_state = example_state
     \<and> room_update example_env ''r1'' (example_event 3 200 ''garbage'' None) example_state = example_state"
    using no_value_no_update [where e = "example_event 3 200 ''garbage'' None" and st = example_state
        and E = example_env and now = 7 and key = Relays and getValue = "getValue_kind3 example_env"
        and rid = "''r1''" and p = "profile example_state" and ts = "[]"]
    by simp
  have i2: "profileHandler Mutes getValue_kind10000 (example_event 3 200 ''garbage'' None)
        example_state = Inr example_state"
    using no_value_no_update [where e = "example_event 3 200 ''garbage'' None" and st = example_state
        and E = example_env and now = 7 and key = Mutes and getValue = getValue_kind10000
        and rid = "''r1''" and p = "profile example_state" and ts = "[]"]
    by simp
  have i3: "room_update example_env ''r1'' (example_event 3 200 ''{}'' None) example_state = example_state"
    using no_value_no_update [where e = "example_event 3 200 ''{}'' None" and st = example_state
        and E = example_env and now = 7 and key = Mutes and getValue = getValue_kind10000
        and rid = "''r1''" and p = "profile example_state" and ts = "[]"] c
    by (simp add: truthy_opt_def)
  from i1 i2 i3 show ?thesis by (simp add: example_state_fields)
qed

section \<open>The dispatcher\<close>

lemma profile_addRoute [simp]:
  "profile (addRoute E now pk url t m c st) = profile st"
  by (simp add: addRoute_def Let_def)

lemma profile_routes_kind3_entries [simp]:
  "profile (routes_kind3_entries E now e kvs st) = profile st"
  by (induction kvs arbitrary: st) (auto simp: Let_def split: json.splits)

lemma profile_routes_kind3 [simp]: "profile (routes_kind3 E now e st) = profile st"
  by (simp add: routes_kind3_def split: option.splits)

lemma profile_routes_kind2 [simp]: "profile (routes_kind2 E now e st) = profile st"
  by (simp add: routes_kind2_def)

lemma profile_routes_kind10002_tags [simp]:
  "profile (routes_kind10002_tags E now e ts st) = profile st"
  by (induction ts arbitrary: st) (auto split: option.splits)

lemma profile_room_update [simp]: "profile (room_update E rid e st) = profile st"
  by (simp add: room_update_def split: option.splits)

lemma profile_launch [simp]: "profile (launch l st) = profile st"
  by (simp add: launch_def)

















section \<open>Processing a batch twice\<close>




lemma payloads_at_Nil [simp]: "payloads_at act M [] = []"
  by (simp add: payloads_at_def List.map_filter_def)













lemma people_maybe_launch [simp]:
  "people (case v of None \<Rightarrow> st | Some n \<Rightarrow> if P n then launch (l n) st else st) = people st"
  by (simp split: option.splits)



lemma keeps_addRoute [simp]:
  "people (addRoute E now pk url t m c st) = people st"
  "rooms (addRoute E now pk url t m c st) = rooms st"
  by (simp_all add: addRoute_def Let_def)

lemma keeps_routes_kind3_entries [simp]:
  "people (routes_kind3_entries E now e kvs st) = people st"
  "rooms (routes_kind3_entries E now e kvs st) = rooms st"
  by (induction kvs arbitrary: st; auto simp: Let_def split: json.splits)+

lemma keeps_routes_kind3 [simp]:
  "people (routes_kind3 E now e st) = people st" "rooms (routes_kind3 E now e st) = rooms st"
  by (simp_all add: routes_kind3_def split: option.splits)

lemma keeps_routes_kind2 [simp]:
  "people (routes_kind2 E now e st) = people st" "rooms (routes_kind2 E now e st) = rooms st"
  by (simp_all add: routes_kind2_def)

lemma keeps_routes_kind10002_tags [simp]:
  "people (routes_kind10002_tags E now e ts st) = people st"
  "rooms (routes_kind10002_tags E now e ts st) = rooms st"
  by (induction ts arbitrary: st; auto split: option.splits)+



lemma rooms_updatePerson [simp]: "rooms (updatePerson now pk d st) = rooms st"
  by (simp add: updatePerson_def Let_def)

lemma rooms_launch [simp]: "rooms (launch l st) = rooms st"
  by (simp add: launch_def)

lemma rooms_handle_kind0 [simp]: "rooms (handle_kind0 E now e st) = rooms st"
  by (simp add: handle_kind0_def Let_def split: option.splits json.splits)


lemma people_room_update [simp]: "people (room_update E rid e st) = people st"
  by (simp add: room_update_def split: option.splits)





lemma person_field_forget [simp]: "person_field f (map_option forget row) = person_field f row"
  by (cases row) (simp_all add: person_field_def forget_def)

lemma person_patch_forget [simp]:
  "person_patch E pk e (map_option forget row) = person_patch E pk e row"
  by (simp add: person_patch_def split: option.splits prod.splits)





lemma person_field_apply_patch:
  "person_field f (Some (apply_patch pk d row)) =
     f (patch_pdata (case row of None \<Rightarrow> empty_pdata | Some p \<Rightarrow> person_data p) d)"
  by (cases row) (simp_all add: person_field_def apply_patch_def)

lemma person_field_None [simp]: "person_field f None = None"
  by (simp add: person_field_def)

lemma person_field_Some [simp]: "person_field f (Some p) = f (person_data p)"
  by (simp add: person_field_def)

lemma empty_pdata_fields [simp]:
  "kind0 empty_pdata = None" "kind0_updated_at empty_pdata = None"
  "petnames empty_pdata = None" "petnames_updated_at empty_pdata = None"
  "verified_as empty_pdata = None" "lnurl empty_pdata = None" "zapper empty_pdata = None"
  by (simp_all add: empty_pdata_def)











subsection \<open>Folding payloads at one timestamp\<close>


lemma fold_map_add:
  "foldl (\<lambda>m u. m ++ f u) m0 us = m0 ++ foldl (\<lambda>m u. m ++ f u) Map.empty us"
  by (induction us rule: rev_induct) simp_all



































end
